theory Spec2Isabelle
  imports Complex_Main
begin

section \<open>Flood risk scoring (app/services/flood\_risk.py)\<close>

text \<open>
  Python floats are modelled as \<^typ>\<open>real\<close>: every test the scorer makes compares a
  reading with an integer constant, which is exact on finite floats. The points
  are Python ints and are modelled as \<^typ>\<open>int\<close>.
\<close>

datatype SeverityLevel = LOW | MEDIUM | HIGH | CRITICAL

fun severity_value :: "SeverityLevel \<Rightarrow> string" where
  "severity_value LOW = ''Low''"
| "severity_value MEDIUM = ''Medium''"
| "severity_value HIGH = ''High''"
| "severity_value CRITICAL = ''Critical''"

text \<open>The three if/elif chains of \<open>calculate_risk_score\<close>, in the order of the source.\<close>

definition rainfall_score :: "real \<Rightarrow> int" where
  "rainfall_score rainfall_mm =
     (if rainfall_mm < 5 then 10
      else if rainfall_mm < 15 then 20
      else if rainfall_mm < 30 then 35
      else if rainfall_mm < 50 then 50
      else 60)"

definition elevation_score :: "real \<Rightarrow> int" where
  "elevation_score elevation_m =
     (if elevation_m < 10 then 40
      else if elevation_m < 50 then 30
      else if elevation_m < 100 then 20
      else if elevation_m < 200 then 10
      else 5)"

definition severity_of_score :: "int \<Rightarrow> SeverityLevel" where
  "severity_of_score total_score =
     (if total_score \<le> 25 then LOW
      else if total_score \<le> 50 then MEDIUM
      else if total_score \<le> 75 then HIGH
      else CRITICAL)"

definition calculate_risk_score :: "real \<Rightarrow> real \<Rightarrow> int \<times> string" where
  "calculate_risk_score rainfall_mm elevation_m =
     (let total_score = rainfall_score rainfall_mm + elevation_score elevation_m;
          severity = severity_of_score total_score
      in (total_score, severity_value severity))"

section \<open>Double arithmetic\<close>

text \<open>
  Outside the scorer the code computes with floats, and the result of an operation
  is the exact result rounded to the nearest double, ties to the even mantissa
  (IEEE 754 binary64). A finite double is the real number it denotes;
  \<open>rnd\<close> rounds a real to the grid of doubles: 53 significant bits, the unit in the
  last place never below 2 to the power -1074. Infinities and NaN are not modelled,
  nor are results beyond the largest double, which the machine turns into an
  infinity: the coordinates are bounded by the schemas, and a statement about
  other sums says for which values it holds.
\<close>

definition round_half_even :: "real \<Rightarrow> int" where
  "round_half_even x =
     (let f = \<lfloor>x\<rfloor>; d = x - of_int f
      in if d < 1 / 2 then f else if 1 / 2 < d then f + 1 else if even f then f else f + 1)"

definition ulp_exponent :: "real \<Rightarrow> int" where
  "ulp_exponent x = max \<lfloor>log 2 \<bar>x\<bar>\<rfloor> (- 1022) - 52"

definition rnd :: "real \<Rightarrow> real" where
  "rnd x = (if x = 0 then 0
            else of_int (round_half_even (x / 2 powi ulp_exponent x)) * 2 powi ulp_exponent x)"

definition fadd :: "real \<Rightarrow> real \<Rightarrow> real" where
  "fadd x y = rnd (x + y)"

definition fsub :: "real \<Rightarrow> real \<Rightarrow> real" where
  "fsub x y = rnd (x - y)"

definition fmul :: "real \<Rightarrow> real \<Rightarrow> real" where
  "fmul x y = rnd (x * y)"

definition fdiv :: "real \<Rightarrow> real \<Rightarrow> real" where
  "fdiv x y = rnd (x / y)"

text \<open>
  A float as a request carries it: its value, or the negative zero, which equals
  zero (\<open>-0.0 == 0.0\<close>) and is formatted differently.
\<close>

datatype pyfloat = Float real | NegZero

fun fval :: "pyfloat \<Rightarrow> real" where
  "fval (Float x) = x"
| "fval NegZero = 0"

section \<open>Environmental data resolution (app/services/flood\_risk.py)\<close>

text \<open>
  A provider call either raises (transport error, non-success status through
  \<open>raise_for_status\<close>, a payload of the wrong shape) or returns (for a query: the
  decoded JSON). Of the JSON only the keys the source reads are kept: an absent
  key is \<open>None\<close>. A value the source reads as a number is a number (a JSON number,
  \<open>true\<close> or \<open>false\<close>) or something a comparison or an addition with a number raises
  \<open>TypeError\<close> on (\<open>null\<close>, a string, a list, an object).
\<close>

datatype 'a response = Raised | Returned 'a

datatype jvalue = Number real | NotNumber

datatype error = TypeError | StoreError

text \<open>\<open>data["rain"]\<close>: absent, or a dict whose \<open>"1h"\<close> (\<open>"3h"\<close>) entry may be absent.\<close>

type_synonym rain = "jvalue option option"

text \<open>The forecast payload: \<open>data["list"]\<close> if present, one \<open>rain\<close> per interval.\<close>

type_synonym forecast = "rain list option"

record elevation_payload =
  status :: "string option"
  results :: "jvalue option list"

text \<open>
  \<open>results\<close> holds, per result, its \<open>"elevation"\<close> entry if present; an absent
  \<open>"results"\<close> key and an empty list are both falsy and both modelled as \<open>[]\<close>.

  The world a \<open>FloodRiskService\<close> talks to: the answers of the two weather queries
  and of the elevation query at a coordinate, the service's elevation key, and the
  runtime functions the code relies on: Python's formatting of a float inside an
  f-string, the interpreter's built-in \<open>hash\<close> of a \<open>str\<close>, which is salted per
  interpreter process, and the \<open>pow\<close> of the C library behind \<open>**\<close>, whose rounding
  the language does not fix.
\<close>

record environment =
  weather :: "pyfloat \<Rightarrow> pyfloat \<Rightarrow> rain response"
  forecast :: "pyfloat \<Rightarrow> pyfloat \<Rightarrow> forecast response"
  elevation_api :: "pyfloat \<Rightarrow> pyfloat \<Rightarrow> elevation_payload response"
  google_elevation_api_key :: "string option"
  float_str :: "pyfloat \<Rightarrow> string"
  hash :: "string \<Rightarrow> int"
  libm_pow :: "real \<Rightarrow> real \<Rightarrow> real"

text \<open>\<open>d.get(key, 0.0)\<close> on an optional entry.\<close>

definition get_or_zero :: "jvalue option \<Rightarrow> jvalue" where
  "get_or_zero v = (case v of None \<Rightarrow> Number 0 | Some x \<Rightarrow> x)"

text \<open>
  The loop over \<open>data["list"][:4]\<close>, accumulating \<open>total_rainfall\<close>. Adding a value
  that is not a number raises, which ends the loop: the result is \<open>None\<close>.
\<close>

fun sum_forecast :: "real \<Rightarrow> rain list \<Rightarrow> real option" where
  "sum_forecast total_rainfall [] = Some total_rainfall"
| "sum_forecast total_rainfall (None # fs) = sum_forecast total_rainfall fs"
| "sum_forecast total_rainfall (Some r # fs) =
     (case get_or_zero r of
        Number v \<Rightarrow> sum_forecast (fadd total_rainfall v) fs
      | NotNumber \<Rightarrow> None)"

definition get_forecast_rainfall :: "environment \<Rightarrow> pyfloat \<Rightarrow> pyfloat \<Rightarrow> real" where
  "get_forecast_rainfall env latitude longitude =
     (case forecast env latitude longitude of
        Raised \<Rightarrow> 0
      | Returned data \<Rightarrow>
          (case (case data of None \<Rightarrow> Some 0 | Some l \<Rightarrow> sum_forecast 0 (take 4 l)) of
             None \<Rightarrow> 0
           | Some total_rainfall \<Rightarrow>
               if total_rainfall > 0 then fdiv total_rainfall 4 else 0))"

text \<open>
  \<open>get_rainfall_data\<close> hands on what it read: a current value that is not a number
  is not equal to \<open>0.0\<close> and is returned as it is.
\<close>

definition get_rainfall_data :: "environment \<Rightarrow> pyfloat \<Rightarrow> pyfloat \<Rightarrow> jvalue" where
  "get_rainfall_data env latitude longitude =
     (case weather env latitude longitude of
        Raised \<Rightarrow> Number 5
      | Returned data \<Rightarrow>
          (let rainfall = (case data of None \<Rightarrow> Number 0 | Some r \<Rightarrow> get_or_zero r)
           in if rainfall = Number 0
              then Number (get_forecast_rainfall env latitude longitude)
              else rainfall))"

definition mock_elevation :: "environment \<Rightarrow> pyfloat \<Rightarrow> pyfloat \<Rightarrow> real" where
  "mock_elevation env latitude longitude =
     (let base_elevation = fmul \<bar>fval latitude\<bar> 10;
          variation = hash env (float_str env latitude @ '','' @ float_str env longitude) mod 100 - 50
      in max 0 (fadd base_elevation (real_of_int variation)))"

text \<open>Python truthiness of an optional string: \<open>None\<close> and \<open>""\<close> are falsy.\<close>

definition truthy :: "string option \<Rightarrow> bool" where
  "truthy s = (case s of None \<Rightarrow> False | Some v \<Rightarrow> v \<noteq> [])"

definition get_elevation_data :: "environment \<Rightarrow> pyfloat \<Rightarrow> pyfloat \<Rightarrow> jvalue" where
  "get_elevation_data env latitude longitude =
     (if \<not> truthy (google_elevation_api_key env)
         \<or> google_elevation_api_key env = Some ''your_google_elevation_api_key_here''
      then Number (mock_elevation env latitude longitude)
      else case elevation_api env latitude longitude of
             Raised \<Rightarrow> Number (mock_elevation env latitude longitude)
           | Returned data \<Rightarrow>
               (if status data = Some ''OK'' \<and> results data \<noteq> []
                then (case hd (results data) of
                        Some elevation \<Rightarrow> elevation
                      | None \<Rightarrow> Number (mock_elevation env latitude longitude))
                else Number (mock_elevation env latitude longitude)))"

record factors =
  rainfall_contribution :: string
  elevation_contribution :: string
  explanation :: string

record risk_data =
  rainfall_mm :: real
  elevation_m :: real
  risk_score :: int
  severity :: string
  factors :: factors

text \<open>
  The comparisons of \<open>calculate_risk_score\<close> raise \<open>TypeError\<close> on a reading that
  is not a number; nothing catches it.
\<close>

definition calculate_flood_risk ::
  "environment \<Rightarrow> pyfloat \<Rightarrow> pyfloat \<Rightarrow> real option \<Rightarrow> real option \<Rightarrow> error + risk_data" where
  "calculate_flood_risk env latitude longitude rainfall_override elevation_override =
     (let rainfall_read = (case rainfall_override of
                             Some v \<Rightarrow> Number v
                           | None \<Rightarrow> get_rainfall_data env latitude longitude);
          elevation_read = (case elevation_override of
                              Some v \<Rightarrow> Number v
                            | None \<Rightarrow> get_elevation_data env latitude longitude)
      in case (rainfall_read, elevation_read) of
           (Number rainfall, Number elevation) \<Rightarrow>
             (let (score, sev) = calculate_risk_score rainfall elevation
              in Inr \<lparr> rainfall_mm = rainfall,
                       elevation_m = elevation,
                       risk_score = score,
                       severity = sev,
                       factors = \<lparr>
                         rainfall_contribution =
                           (if rainfall > 30 then ''High''
                            else if rainfall > 15 then ''Medium'' else ''Low''),
                         elevation_contribution =
                           (if elevation < 50 then ''High risk''
                            else if elevation < 100 then ''Medium risk'' else ''Low risk''),
                         explanation =
                           ''Risk is ''
                           @ (if score > 50 then ''elevated''
                              else if score > 25 then ''moderate'' else ''low'')
                           @ '' due to ''
                           @ (if rainfall > 30 then ''heavy''
                              else if rainfall > 15 then ''moderate'' else ''light'')
                           @ '' rainfall and ''
                           @ (if elevation < 50 then ''low''
                              else if elevation < 100 then ''moderate'' else ''high'')
                           @ '' elevation.'' \<rparr> \<rparr>)
         | _ \<Rightarrow> Inl TypeError)"

section \<open>Request schemas and stored rows (app/schemas.py, app/models.py)\<close>

text \<open>
  Fields that several classes share by name carry a prefix here where a record of
  this theory already uses the name. Timestamps are left out.
\<close>

record FloodEventBase =
  location_name :: string
  latitude :: pyfloat
  longitude :: pyfloat
  description :: "string option"

record FloodEventCreate = FloodEventBase +
  input_rainfall_mm :: "real option"
  input_elevation_m :: "real option"

text \<open>
  The \<open>Field\<close> constraints of \<open>FloodEventCreate\<close>: \<open>ge\<close>/\<open>le\<close> on the coordinates,
  \<open>ge=0\<close> on \<open>rainfall_mm\<close>, none on \<open>elevation_m\<close>.
\<close>

definition FloodEventCreate_valid :: "FloodEventCreate \<Rightarrow> bool" where
  "FloodEventCreate_valid e \<longleftrightarrow>
     - 90 \<le> fval (latitude e) \<and> fval (latitude e) \<le> 90 \<and>
     - 180 \<le> fval (longitude e) \<and> fval (longitude e) \<le> 180 \<and>
     (case input_rainfall_mm e of None \<Rightarrow> True | Some r \<Rightarrow> 0 \<le> r)"

record FloodEvent = FloodEventBase +
  event_id :: nat
  event_severity :: string
  event_risk_score :: int
  event_rainfall_mm :: real
  event_elevation_m :: real




text \<open>
  A row of \<open>alert_subscriptions\<close>. The coordinates are not nullable; the other
  columns are, and \<open>is_active\<close> holds an integer.
\<close>

record AlertSubscription =
  sub_id :: nat
  sub_email :: "string option"
  sub_phone :: "string option"
  sub_latitude :: real
  sub_longitude :: real
  sub_radius_km :: "real option"
  sub_min_severity :: "string option"
  sub_is_active :: "int option"

text \<open>
  The record store: the two tables, the next primary key of each, and which of its
  operations fail at present (the session raises).
\<close>

datatype db_op = Insert | Query | Update

record database =
  flood_events :: "FloodEvent list"
  alert_subscriptions :: "AlertSubscription list"
  flood_event_seq :: nat
  alert_subscription_seq :: nat
  fails :: "db_op \<Rightarrow> bool"

section \<open>Store operations (app/crud.py)\<close>





text \<open>The dict \<open>severity_order\<close> and \<open>severity_order.get(key, 0)\<close>.\<close>

definition severity_order :: "string \<rightharpoonup> nat" where
  "severity_order = map_of [(''Low'', 0), (''Medium'', 1), (''High'', 2), (''Critical'', 3)]"

definition severity_level :: "string \<Rightarrow> nat" where
  "severity_level key = (case severity_order key of None \<Rightarrow> 0 | Some v \<Rightarrow> v)"

text \<open>The same lookup with the column of a row as key: \<open>NULL\<close> is no key of the dict.\<close>

definition sub_severity_level :: "AlertSubscription \<Rightarrow> nat" where
  "sub_severity_level sub =
     (case sub_min_severity sub of None \<Rightarrow> 0 | Some key \<Rightarrow> severity_level key)"

text \<open>
  The distance the loop computes for a row, in double arithmetic:
  \<open>x ** 2\<close> and \<open>x ** 0.5\<close> are calls of \<open>pow\<close>.
\<close>

definition approx_dist_km ::
  "(real \<Rightarrow> real \<Rightarrow> real) \<Rightarrow> AlertSubscription \<Rightarrow> real \<Rightarrow> real \<Rightarrow> real" where
  "approx_dist_km pow sub lat lon =
     (let lat_diff = \<bar>fsub (sub_latitude sub) lat\<bar>;
          lon_diff = \<bar>fsub (sub_longitude sub) lon\<bar>
      in fmul (pow (fadd (pow lat_diff 2) (pow lon_diff 2)) (1 / 2)) 111)"

text \<open>
  The \<open>for sub in subscriptions\<close> loop, with \<open>matching_subs\<close> as accumulator. The
  comparison of the distance with a \<open>NULL\<close> radius raises \<open>TypeError\<close>, which
  leaves the loop and the function.
\<close>

fun matching_loop ::
  "(real \<Rightarrow> real \<Rightarrow> real) \<Rightarrow> real \<Rightarrow> real \<Rightarrow> nat \<Rightarrow> AlertSubscription list
     \<Rightarrow> AlertSubscription list \<Rightarrow> error + AlertSubscription list" where
  "matching_loop pow lat lon event_severity_level [] matching_subs = Inr matching_subs"
| "matching_loop pow lat lon event_severity_level (sub # subs) matching_subs =
     (case sub_radius_km sub of
        None \<Rightarrow> Inl TypeError
      | Some radius \<Rightarrow>
          matching_loop pow lat lon event_severity_level subs
            (if approx_dist_km pow sub lat lon \<le> radius
                \<and> event_severity_level \<ge> sub_severity_level sub
             then matching_subs @ [sub] else matching_subs))"

definition get_subscriptions_near_location ::
  "(real \<Rightarrow> real \<Rightarrow> real) \<Rightarrow> database \<Rightarrow> real \<Rightarrow> real \<Rightarrow> string
     \<Rightarrow> error + AlertSubscription list" where
  "get_subscriptions_near_location pow db lat lon min_sev =
     (let event_severity_level = severity_level min_sev
      in if fails db Query then Inl StoreError
         else matching_loop pow lat lon event_severity_level
                (filter (\<lambda>s. sub_is_active s = Some 1) (alert_subscriptions db)) [])"

section \<open>Alert dispatch (app/services/notification.py)\<close>

record NotificationService =
  twilio_sid :: "string option"
  twilio_token :: "string option"
  twilio_phone :: "string option"
  smtp_email :: "string option"
  smtp_password :: "string option"

text \<open>
  A provider call as the provider sees it: the Twilio POST (\<open>From\<close>, \<open>To\<close>, \<open>Body\<close>)
  and the SMTP submission (\<open>From\<close>, \<open>To\<close>, \<open>Subject\<close>, plain body, HTML part if any).
\<close>

datatype call =
  TwilioPost "string option" string string
| SmtpSend "string option" string string string "string option"

text \<open>
  The providers answer a call knowing the calls made before it: Twilio with a status
  code unless the request raises, the SMTP session by returning unless it raises.
\<close>

record providers =
  twilio :: "call list \<Rightarrow> call \<Rightarrow> nat response"
  smtp :: "call list \<Rightarrow> call \<Rightarrow> unit response"

text \<open>\<open>all([...])\<close> over the credentials of a channel.\<close>

definition twilio_configured :: "NotificationService \<Rightarrow> bool" where
  "twilio_configured svc \<longleftrightarrow>
     truthy (twilio_sid svc) \<and> truthy (twilio_token svc) \<and> truthy (twilio_phone svc)"

definition smtp_configured :: "NotificationService \<Rightarrow> bool" where
  "smtp_configured svc \<longleftrightarrow> truthy (smtp_email svc) \<and> truthy (smtp_password svc)"

text \<open>
  Each operation takes the list of provider calls made so far and returns it
  extended by its own. A call that raises is recorded as well.
\<close>

definition send_sms ::
  "NotificationService \<Rightarrow> providers \<Rightarrow> string \<Rightarrow> string \<Rightarrow> call list \<Rightarrow> bool \<times> call list" where
  "send_sms svc prov to_phone message calls =
     (if \<not> twilio_configured svc
      then (False, calls)
      else let c = TwilioPost (twilio_phone svc) to_phone message
           in case twilio prov calls c of
                Returned status_code \<Rightarrow> (status_code = 201, calls @ [c])
              | Raised \<Rightarrow> (False, calls @ [c]))"

definition send_email ::
  "NotificationService \<Rightarrow> providers \<Rightarrow> string \<Rightarrow> string \<Rightarrow> string \<Rightarrow> string option \<Rightarrow> call list
     \<Rightarrow> bool \<times> call list" where
  "send_email svc prov to_email subject body html_body calls =
     (if \<not> smtp_configured svc
      then (False, calls)
      else let c = SmtpSend (smtp_email svc) to_email subject body
                     (if truthy html_body then html_body else None)
           in case smtp prov calls c of
                Returned _ \<Rightarrow> (True, calls @ [c])
              | Raised \<Rightarrow> (False, calls @ [c]))"

text \<open>
  The four texts \<open>send_flood_alert\<close> renders from its arguments. The f-string
  templates are not interpreted: the rendering is a parameter of the model.
\<close>

record alert_texts =
  sms_message :: string
  email_subject :: string
  email_body :: string
  email_html :: string

type_synonym renderer = "string \<Rightarrow> string \<Rightarrow> real \<Rightarrow> real \<Rightarrow> real \<Rightarrow> alert_texts"

record alert_results =
  sms_sent :: nat
  sms_failed :: nat
  emails_sent :: nat
  emails_failed :: nat

fun sms_loop ::
  "NotificationService \<Rightarrow> providers \<Rightarrow> string \<Rightarrow> string list \<Rightarrow> alert_results \<times> call list
     \<Rightarrow> alert_results \<times> call list" where
  "sms_loop svc prov msg [] st = st"
| "sms_loop svc prov msg (to_phone # rest) (res, calls) =
     (let (success, calls') = send_sms svc prov to_phone msg calls
      in sms_loop svc prov msg rest
           (if success then res\<lparr>sms_sent := sms_sent res + 1\<rparr>
            else res\<lparr>sms_failed := sms_failed res + 1\<rparr>, calls'))"

fun email_loop ::
  "NotificationService \<Rightarrow> providers \<Rightarrow> alert_texts \<Rightarrow> string list \<Rightarrow> alert_results \<times> call list
     \<Rightarrow> alert_results \<times> call list" where
  "email_loop svc prov texts [] st = st"
| "email_loop svc prov texts (to_email # rest) (res, calls) =
     (let (success, calls') =
            send_email svc prov to_email (email_subject texts) (email_body texts)
              (Some (email_html texts)) calls
      in email_loop svc prov texts rest
           (if success then res\<lparr>emails_sent := emails_sent res + 1\<rparr>
            else res\<lparr>emails_failed := emails_failed res + 1\<rparr>, calls'))"

text \<open>\<open>if phone_numbers:\<close> holds for a list that is given and not empty.\<close>

definition given :: "'a list option \<Rightarrow> 'a list" where
  "given xs = (case xs of None \<Rightarrow> [] | Some l \<Rightarrow> l)"

definition send_flood_alert ::
  "NotificationService \<Rightarrow> providers \<Rightarrow> renderer \<Rightarrow> string \<Rightarrow> string \<Rightarrow> real \<Rightarrow> real \<Rightarrow> real
     \<Rightarrow> string list option \<Rightarrow> string list option \<Rightarrow> call list \<Rightarrow> alert_results \<times> call list" where
  "send_flood_alert svc prov render loc_name risk_level score lat lon phone_numbers emails calls =
     (let texts = render loc_name risk_level score lat lon;
          res = \<lparr> sms_sent = 0, sms_failed = 0, emails_sent = 0, emails_failed = 0 \<rparr>;
          st1 = (if given phone_numbers \<noteq> []
                 then sms_loop svc prov (sms_message texts) (given phone_numbers) (res, calls)
                 else (res, calls));
          st2 = (if given emails \<noteq> []
                 then email_loop svc prov texts (given emails) st1
                 else st1)
      in st2)"

section \<open>The pipeline (app/routers/floods.py)\<close>



text \<open>
  What a call of the handler leaves behind: its response, which is the created
  event or the exception that left the handler, the provider calls made, and the
  store.
\<close>

record pipeline_run =
  response :: "error + FloodEvent"
  calls_made :: "call list"
  store :: database


section \<open>Notions used in the statements\<close>




text \<open>
  The provider calls a dispatch makes when a channel is configured: one per
  recipient, in the order of the list.
\<close>

definition twilio_calls :: "NotificationService \<Rightarrow> alert_texts \<Rightarrow> string list \<Rightarrow> call list" where
  "twilio_calls svc texts phones =
     (if twilio_configured svc
      then map (\<lambda>p. TwilioPost (twilio_phone svc) p (sms_message texts)) phones else [])"

definition smtp_calls :: "NotificationService \<Rightarrow> alert_texts \<Rightarrow> string list \<Rightarrow> call list" where
  "smtp_calls svc texts es =
     (if smtp_configured svc
      then map (\<lambda>e. SmtpSend (smtp_email svc) e (email_subject texts) (email_body texts)
                       (if email_html texts = [] then None else Some (email_html texts))) es
      else [])"

text \<open>The radius test of the matcher on a row: the row has a radius and lies within it.\<close>

definition within_radius ::
  "(real \<Rightarrow> real \<Rightarrow> real) \<Rightarrow> AlertSubscription \<Rightarrow> real \<Rightarrow> real \<Rightarrow> bool" where
  "within_radius pow sub lat lon =
     (case sub_radius_km sub of
        None \<Rightarrow> False
      | Some radius \<Rightarrow> approx_dist_km pow sub lat lon \<le> radius)"

section \<open>Concrete inputs\<close>





definition d_0_15 :: real where
  "d_0_15 = 5404319552844595 / 2 ^ 55"

definition d_0_0225 :: real where
  "d_0_0225 = 3242591731706757 / 2 ^ 57"

definition d_16_65 :: real where
  "d_16_65 = 2343279181116211 / 2 ^ 47"

definition d_40_7128 :: real where
  "d_40_7128 = 2864908607956399 / 2 ^ 46"

definition d_407_128 :: real where
  "d_407_128 = 3581135759945499 / 2 ^ 43"

text \<open>
  A C library whose \<open>pow\<close> is correctly rounded; Python's formatting on the floats
  used below; a hash as one process may have it, and the hash of another process.
\<close>

definition pow_rounded :: "real \<Rightarrow> real \<Rightarrow> real" where
  "pow_rounded x y = rnd (x powr y)"

fun repr_sample :: "pyfloat \<Rightarrow> string" where
  "repr_sample NegZero = ''-0.0''"
| "repr_sample (Float x) =
     (if x = 0 then ''0.0'' else if x = 7 then ''7.0'' else ''40.7128'')"

definition hash_sample :: "string \<Rightarrow> int" where
  "hash_sample s =
     (if s = ''0.0,0.0'' then 71 else if s = ''-0.0,0.0'' then 69 else 50)"

definition hash_other :: "string \<Rightarrow> int" where
  "hash_other s = 60"

text \<open>
  An environment in which every provider call raises, the same with the answers of
  the two weather queries replaced, and the same under the other hash.
\<close>

definition env_offline :: environment where
  "env_offline = \<lparr> weather = (\<lambda>_ _. Raised), forecast = (\<lambda>_ _. Raised),
                    elevation_api = (\<lambda>_ _. Raised), google_elevation_api_key = None,
                    float_str = repr_sample, hash = hash_sample, libm_pow = pow_rounded \<rparr>"

definition env_with :: "rain response \<Rightarrow> forecast response \<Rightarrow> environment" where
  "env_with w f = env_offline\<lparr> weather := (\<lambda>_ _. w), forecast := (\<lambda>_ _. f) \<rparr>"

definition env_reseeded :: environment where
  "env_reseeded = env_offline\<lparr> hash := hash_other \<rparr>"

text \<open>
  A notification service with all credentials, providers of which Twilio always
  raises and SMTP always accepts, and a fixed rendering.
\<close>

definition svc_ok :: NotificationService where
  "svc_ok = \<lparr> twilio_sid = Some ''AC1'', twilio_token = Some ''tok'', twilio_phone = Some ''+199'',
               smtp_email = Some ''alerts@x.y'', smtp_password = Some ''pw'' \<rparr>"

definition prov_sms_down :: providers where
  "prov_sms_down = \<lparr> twilio = (\<lambda>_ _. Raised), smtp = (\<lambda>_ _. Returned ()) \<rparr>"

definition render0 :: renderer where
  "render0 = (\<lambda>_ _ _ _ _. \<lparr> sms_message = ''sms'', email_subject = ''subject'',
                               email_body = ''body'', email_html = ''html'' \<rparr>)"



definition event_below_sea :: FloodEventCreate where
  "event_below_sea = \<lparr> location_name = ''Basin'', latitude = Float 0, longitude = Float 0,
                        description = None,
                        input_rainfall_mm = Some 0, input_elevation_m = Some (- 5) \<rparr>"

text \<open>
  An empty store that answers; a request for a subscription that passes the schema
  and asks for the minimum severity \<open>high\<close> in lower case; the row and the store
  that \<open>create_subscription\<close> makes of it; the update that sets the radius of that
  row to \<open>null\<close>, and the store after it; the store of the first row when its
  queries fail.
\<close>

definition empty_db :: database where
  "empty_db = \<lparr> flood_events = [], alert_subscriptions = [],
                 flood_event_seq = 1, alert_subscription_seq = 1, fails = (\<lambda>_. False) \<rparr>"


definition sub_high :: AlertSubscription where
  "sub_high = \<lparr> sub_id = 1, sub_email = Some ''a@b.c'', sub_phone = Some ''+100'',
                 sub_latitude = 0, sub_longitude = 0, sub_radius_km = Some 5,
                 sub_min_severity = Some ''high'', sub_is_active = Some 1 \<rparr>"

definition db_high :: database where
  "db_high = empty_db\<lparr> alert_subscriptions := [sub_high], alert_subscription_seq := 2 \<rparr>"


definition db_null_radius :: database where
  "db_null_radius = db_high\<lparr> alert_subscriptions := [sub_high\<lparr> sub_radius_km := None \<rparr>] \<rparr>"

definition query_fails :: "db_op \<Rightarrow> bool" where
  "query_fails op = (op = Query)"

definition db_query_down :: database where
  "db_query_down = db_high\<lparr> fails := query_fails \<rparr>"

text \<open>
  A row that passes the schema, 0.15 degrees of longitude from the origin with a
  radius of 16.65 km, and the store that holds it.
\<close>

definition sub_boundary :: AlertSubscription where
  "sub_boundary = \<lparr> sub_id = 1, sub_email = Some ''a@b.c'', sub_phone = None,
                     sub_latitude = 0, sub_longitude = d_0_15, sub_radius_km = Some d_16_65,
                     sub_min_severity = Some ''Low'', sub_is_active = Some 1 \<rparr>"

definition db_boundary :: database where
  "db_boundary = empty_db\<lparr> alert_subscriptions := [sub_boundary], alert_subscription_seq := 2 \<rparr>"






section \<open>The scorer\<close>

text \<open>
  Claim C1. For a rainfall and an elevation that are not negative,
  \<open>calculate_risk_score\<close> gives the rainfall the points of the half-open bin it lies
  in (\<open>[0,5)\<close> 10, \<open>[5,15)\<close> 20, \<open>[15,30)\<close> 35, \<open>[30,50)\<close> 50, \<open>[50,\<infinity>)\<close> 60), the
  elevation the points of its bin (\<open>[0,10)\<close> 40, \<open>[10,50)\<close> 30, \<open>[50,100)\<close> 20,
  \<open>[100,200)\<close> 10, \<open>[200,\<infinity>)\<close> 5), returns their sum as the total, and names the
  severity Low up to 25, Medium up to 50, High up to 75 and Critical above. A
  rainfall of exactly 5 scores 20 and an elevation of exactly 10 scores 30.
\<close>

theorem calculate_risk_score_bins:
  assumes "0 \<le> r" and "0 \<le> e"
  shows "(r < 5 \<longrightarrow> rainfall_score r = 10) \<and>
         (5 \<le> r \<and> r < 15 \<longrightarrow> rainfall_score r = 20) \<and>
         (15 \<le> r \<and> r < 30 \<longrightarrow> rainfall_score r = 35) \<and>
         (30 \<le> r \<and> r < 50 \<longrightarrow> rainfall_score r = 50) \<and>
         (50 \<le> r \<longrightarrow> rainfall_score r = 60) \<and>
         (e < 10 \<longrightarrow> elevation_score e = 40) \<and>
         (10 \<le> e \<and> e < 50 \<longrightarrow> elevation_score e = 30) \<and>
         (50 \<le> e \<and> e < 100 \<longrightarrow> elevation_score e = 20) \<and>
         (100 \<le> e \<and> e < 200 \<longrightarrow> elevation_score e = 10) \<and>
         (200 \<le> e \<longrightarrow> elevation_score e = 5) \<and>
         fst (calculate_risk_score r e) = rainfall_score r + elevation_score e \<and>
         (fst (calculate_risk_score r e) \<le> 25 \<longrightarrow> snd (calculate_risk_score r e) = ''Low'') \<and>
         (25 < fst (calculate_risk_score r e) \<and> fst (calculate_risk_score r e) \<le> 50
            \<longrightarrow> snd (calculate_risk_score r e) = ''Medium'') \<and>
         (50 < fst (calculate_risk_score r e) \<and> fst (calculate_risk_score r e) \<le> 75
            \<longrightarrow> snd (calculate_risk_score r e) = ''High'') \<and>
         (75 < fst (calculate_risk_score r e) \<longrightarrow> snd (calculate_risk_score r e) = ''Critical'') \<and>
         rainfall_score 5 = 20 \<and> elevation_score 10 = 30"
  by (simp add: rainfall_score_def elevation_score_def calculate_risk_score_def
        severity_of_score_def Let_def)

theorem calculate_risk_score_bins_witness:
  "(0::real) \<le> 5 \<and> (0::real) \<le> 10 \<and> rainfall_score 5 = 20 \<and> elevation_score 10 = 30 \<and>
   calculate_risk_score 5 10 = (50, ''Medium'')"
  using calculate_risk_score_bins [of 5 10] by (simp add: prod_eq_iff)

text \<open>
  Claim C7. With the elevation held fixed the total score does not decrease when
  the rainfall grows, and with the rainfall held fixed it does not increase when
  the elevation grows. This holds for all readings, negative ones included.
\<close>

theorem risk_score_monotone:
  "(r1 \<le> r2 \<longrightarrow> fst (calculate_risk_score r1 e) \<le> fst (calculate_risk_score r2 e)) \<and>
   (e1 \<le> e2 \<longrightarrow> fst (calculate_risk_score r e2) \<le> fst (calculate_risk_score r e1))"
  by (simp add: rainfall_score_def elevation_score_def calculate_risk_score_def Let_def)

theorem risk_score_monotone_witness:
  "(4::real) \<le> 5 \<and> fst (calculate_risk_score 4 10) \<le> fst (calculate_risk_score 5 10) \<and>
   (9::real) \<le> 10 \<and> fst (calculate_risk_score 5 10) \<le> fst (calculate_risk_score 5 9)"
  using risk_score_monotone [of 4 5 10 9 10 5] by simp

text \<open>
  Claim C9. The total score is always between 15 and 100: it is the sum of one of
  10, 20, 35, 50, 60 and one of 5, 10, 20, 30, 40, so it is never 26 and never 76.
\<close>

theorem risk_score_range:
  "15 \<le> fst (calculate_risk_score r e) \<and> fst (calculate_risk_score r e) \<le> 100 \<and>
   fst (calculate_risk_score r e) \<noteq> 26 \<and> fst (calculate_risk_score r e) \<noteq> 76 \<and>
   (\<exists>a \<in> {10, 20, 35, 50, 60}. \<exists>b \<in> {5, 10, 20, 30, 40}. fst (calculate_risk_score r e) = a + b)"
  by (simp add: rainfall_score_def elevation_score_def calculate_risk_score_def Let_def)

theorem risk_score_range_witness:
  "15 \<le> fst (calculate_risk_score 0 250) \<and> fst (calculate_risk_score 0 250) \<le> 100 \<and>
   fst (calculate_risk_score 0 250) \<noteq> 26 \<and> fst (calculate_risk_score 0 250) \<noteq> 76"
  using risk_score_range [of 0 250] by simp

section \<open>Rounding\<close>

lemma round_half_even_nonneg: "0 \<le> x \<Longrightarrow> 0 \<le> round_half_even x"
  by (auto simp add: round_half_even_def Let_def)

lemma rnd_nonneg: "0 \<le> x \<Longrightarrow> 0 \<le> rnd x"
  by (simp add: rnd_def round_half_even_nonneg)

lemma rnd_zero: "rnd 0 = 0"
  by (simp add: rnd_def)

lemma two_powr_int: "(2::real) powr real_of_int e = 2 powi e"
  by (simp add: powr_real_of_int power_int_def power_one_over inverse_eq_divide)

lemma ulp_exponent_eq:
  assumes "2 powi e \<le> \<bar>x\<bar>" and "\<bar>x\<bar> < 2 powi (e + 1)"
  shows "ulp_exponent x = max e (- 1022) - 52"
proof -
  have pos: "0 < \<bar>x\<bar>"
    using assms(1) by (smt (verit) zero_less_power_int)
  have "(2::real) powr real_of_int (e + 1) = 2 powi (e + 1)"
    by (rule two_powr_int)
  then have "(2::real) powr (real_of_int e + 1) = 2 powi (e + 1)"
    by simp
  then have "\<lfloor>log 2 \<bar>x\<bar>\<rfloor> = e"
    using assms pos by (simp add: floor_log_eq_powr_iff two_powr_int)
  then show ?thesis by (simp add: ulp_exponent_def)
qed

text \<open>Rounding a number whose binade is known, and a number next to a grid point.\<close>

lemma rnd_binade:
  assumes "2 powi e \<le> \<bar>x\<bar>" and "\<bar>x\<bar> < 2 powi (e + 1)" and "- 1022 \<le> e"
  shows "rnd x = of_int (round_half_even (x / 2 powi (e - 52))) * 2 powi (e - 52)"
proof -
  have "x \<noteq> 0" using assms(1) by (smt (verit) zero_less_power_int)
  moreover have "ulp_exponent x = e - 52"
    using ulp_exponent_eq [OF assms(1,2)] assms(3) by simp
  ultimately show ?thesis by (simp add: rnd_def)
qed

lemma round_half_even_near:
  assumes "of_int m - 1 / 2 < x" and "x < of_int m + 1 / 2"
  shows "round_half_even x = m"
proof -
  have "\<lfloor>x\<rfloor> = m \<or> \<lfloor>x\<rfloor> = m - 1"
    using assms by linarith
  then show ?thesis
  proof
    assume f: "\<lfloor>x\<rfloor> = m"
    then have "x - of_int \<lfloor>x\<rfloor> < 1 / 2" using assms by simp
    then show ?thesis using f by (simp add: round_half_even_def Let_def)
  next
    assume f: "\<lfloor>x\<rfloor> = m - 1"
    then have "1 / 2 < x - of_int \<lfloor>x\<rfloor>" using assms by simp
    then show ?thesis using f by (simp add: round_half_even_def Let_def)
  qed
qed

lemma rnd_sqrt_eval:
  assumes "0 \<le> lo" "lo\<^sup>2 \<le> y" "y < hi\<^sup>2" "0 \<le> hi"
    and "2 powi e \<le> lo" "hi \<le> 2 powi (e + 1)" "- 1022 \<le> e"
    and "lo = (of_int m - 1 / 2) * 2 powi (e - 52) + d" "0 < d"
    and "hi = (of_int m + 1 / 2) * 2 powi (e - 52)"
  shows "rnd (sqrt y) = of_int m * 2 powi (e - 52)"
proof -
  have lo: "lo \<le> sqrt y" using assms(1,2) by (simp add: real_le_rsqrt)
  have hi: "sqrt y < hi" using assms(3,4) by (simp add: real_less_lsqrt)
  have pos: "0 < (2::real) powi (e - 52)" by simp
  have b1: "2 powi e \<le> \<bar>sqrt y\<bar>" using lo assms(5) by linarith
  have b2: "\<bar>sqrt y\<bar> < 2 powi (e + 1)" using hi lo assms(1,6) by linarith
  have "of_int m - 1 / 2 < sqrt y / 2 powi (e - 52)"
    using lo assms(8,9) pos by (simp add: field_simps)
  moreover have "sqrt y / 2 powi (e - 52) < of_int m + 1 / 2"
    using hi assms(10) pos by (simp add: field_simps)
  ultimately have "round_half_even (sqrt y / 2 powi (e - 52)) = m"
    by (rule round_half_even_near)
  then show ?thesis
    using rnd_binade [OF b1 b2 assms(7)] by simp
qed


section \<open>The subscriber matcher\<close>

lemma severity_level_simps:
  "severity_level ''Low'' = 0" "severity_level ''Medium'' = 1"
  "severity_level ''High'' = 2" "severity_level ''Critical'' = 3"
  by (simp_all add: severity_level_def severity_order_def)

lemma severity_level_other:
  "key \<notin> {''Low'', ''Medium'', ''High'', ''Critical''} \<Longrightarrow> severity_level key = 0"
  by (simp add: severity_level_def severity_order_def)


lemma matching_loop_filter:
  "\<forall>sub \<in> set subs. sub_radius_km sub \<noteq> None \<Longrightarrow>
     matching_loop pow lat lon lvl subs acc =
       Inr (acc @ filter (\<lambda>sub. within_radius pow sub lat lon \<and> sub_severity_level sub \<le> lvl) subs)"
  by (induction subs arbitrary: acc) (auto simp add: within_radius_def split: option.splits)

lemma matcher_returns:
  assumes "\<not> fails db Query"
    and "\<forall>sub \<in> set (alert_subscriptions db). sub_is_active sub = Some 1 \<longrightarrow> sub_radius_km sub \<noteq> None"
  shows "get_subscriptions_near_location pow db lat lon sev =
           Inr (filter (\<lambda>sub. sub_is_active sub = Some 1 \<and> within_radius pow sub lat lon \<and>
                          severity_level sev \<ge> sub_severity_level sub)
                  (alert_subscriptions db))"
proof -
  let ?active = "filter (\<lambda>s. sub_is_active s = Some 1) (alert_subscriptions db)"
  have "\<forall>sub \<in> set ?active. sub_radius_km sub \<noteq> None"
    using assms(2) by simp
  then have "matching_loop pow lat lon (severity_level sev) ?active [] =
               Inr ([] @ filter (\<lambda>sub. within_radius pow sub lat lon \<and>
                                   sub_severity_level sub \<le> severity_level sev) ?active)"
    by (rule matching_loop_filter)
  then show ?thesis
    using assms(1) by (simp add: get_subscriptions_near_location_def Let_def conj_commute)
qed

lemma sub_high_fields:
  "sub_latitude sub_high = 0" "sub_longitude sub_high = 0" "sub_radius_km sub_high = Some 5"
  "sub_min_severity sub_high = Some ''high''" "sub_is_active sub_high = Some 1"
  "sub_email sub_high = Some ''a@b.c''" "sub_phone sub_high = Some ''+100''"
  by (simp_all add: sub_high_def)

lemma sub_boundary_fields:
  "sub_latitude sub_boundary = 0" "sub_longitude sub_boundary = d_0_15"
  "sub_radius_km sub_boundary = Some d_16_65" "sub_min_severity sub_boundary = Some ''Low''"
  "sub_is_active sub_boundary = Some 1"
  by (simp_all add: sub_boundary_def)

lemma store_rows:
  "alert_subscriptions db_high = [sub_high]" "fails db_high Query = False"
  "fails db_high Insert = False"
  "alert_subscriptions db_boundary = [sub_boundary]" "fails db_boundary Query = False"
  "alert_subscriptions db_null_radius = [sub_high\<lparr> sub_radius_km := None \<rparr>]"
  "fails db_null_radius Query = False" "fails db_null_radius Insert = False"
  "alert_subscriptions db_query_down = [sub_high]" "fails db_query_down Query = True"
  "fails db_query_down Insert = False"
  by (simp_all add: db_high_def db_boundary_def db_null_radius_def db_query_down_def
        query_fails_def empty_db_def)

lemma approx_dist_km_origin: "approx_dist_km pow_rounded sub_high 0 0 = 0"
  by (simp add: approx_dist_km_def sub_high_fields fsub_def fadd_def fmul_def pow_rounded_def
        rnd_zero Let_def)

lemma sub_boundary_distance: "approx_dist_km pow_rounded sub_boundary 0 0 = d_16_65"
proof -
  have 1: "fsub 0 0 = 0"
    by (simp add: fsub_def rnd_zero)
  have 2: "fsub d_0_15 0 = d_0_15"
    unfolding fsub_def d_0_15_def
    by (subst rnd_binade [where e = "- 3"])
       (simp_all add: round_half_even_def Let_def power_int_minus)
  have 3: "pow_rounded 0 2 = 0"
    by (simp add: pow_rounded_def rnd_zero)
  have 4: "pow_rounded d_0_15 2 = d_0_0225"
    unfolding pow_rounded_def d_0_15_def d_0_0225_def
    by (subst rnd_binade [where e = "- 6"])
       (simp_all add: round_half_even_def Let_def power_int_minus power2_eq_square)
  have 5: "fadd 0 d_0_0225 = d_0_0225"
    unfolding fadd_def d_0_0225_def
    by (subst rnd_binade [where e = "- 6"])
       (simp_all add: round_half_even_def Let_def power_int_minus)
  have "rnd (sqrt (3242591731706757 / 2 ^ 57)) = of_int 5404319552844595 * 2 powi (- 3 - 52)"
    by (rule rnd_sqrt_eval [where lo = "(5404319552844595 - 1 / 4) / 2 ^ 55"
          and hi = "(5404319552844595 + 1 / 2) / 2 ^ 55" and d = "1 / 2 ^ 57"])
       (simp_all add: power_int_minus power2_eq_square)
  then have 6: "pow_rounded d_0_0225 (1 / 2) = d_0_15"
    by (simp add: pow_rounded_def powr_half_sqrt power_int_minus d_0_15_def d_0_0225_def)
  have 7: "fmul d_0_15 111 = d_16_65"
    unfolding fmul_def d_0_15_def d_16_65_def
    by (subst rnd_binade [where e = 4])
       (simp_all add: round_half_even_def Let_def power_int_minus)
  have pos: "\<bar>d_0_15\<bar> = d_0_15"
    by (simp add: d_0_15_def)
  have "approx_dist_km pow_rounded sub_boundary 0 0 =
          fmul (pow_rounded (fadd (pow_rounded \<bar>fsub 0 0\<bar> 2)
                  (pow_rounded \<bar>fsub d_0_15 0\<bar> 2)) (1 / 2)) 111"
    by (simp only: approx_dist_km_def sub_boundary_fields Let_def)
  also have "\<dots> = fmul (pow_rounded (fadd 0 d_0_0225) (1 / 2)) 111"
    by (simp only: 1 2 3 4 pos abs_zero)
  also have "\<dots> = d_16_65"
    by (simp only: 5 6 7)
  finally show ?thesis .
qed

text \<open>
  Claim C3, as amended. When the store answers and every active row has a radius,
  the matcher returns exactly the rows that are active (\<open>is_active = 1\<close>), whose
  distance from the event is at most their radius, and whose minimum severity ranks
  no higher than the event's severity, with Low < Medium < High < Critical. The
  distance is the one the code computes in double arithmetic,
  \<open>((|\<Delta>lat| ** 2 + |\<Delta>lon| ** 2) ** 0.5) * 111\<close>, every operation rounded. The result
  is a part of the table and holds no inactive row.
\<close>

theorem get_subscriptions_near_location_exact:
  assumes "\<not> fails db Query"
    and "\<forall>sub \<in> set (alert_subscriptions db). sub_is_active sub = Some 1 \<longrightarrow> sub_radius_km sub \<noteq> None"
  shows "get_subscriptions_near_location pow db lat lon sev =
           Inr (filter (\<lambda>sub. sub_is_active sub = Some 1 \<and> within_radius pow sub lat lon \<and>
                          severity_level sev \<ge> sub_severity_level sub)
                  (alert_subscriptions db)) \<and>
         (\<forall>sub. within_radius pow sub lat lon \<longleftrightarrow>
            (\<exists>radius. sub_radius_km sub = Some radius \<and>
               fmul (pow (fadd (pow \<bar>fsub (sub_latitude sub) lat\<bar> 2)
                               (pow \<bar>fsub (sub_longitude sub) lon\<bar> 2)) (1 / 2)) 111 \<le> radius)) \<and>
         (\<forall>subs. get_subscriptions_near_location pow db lat lon sev = Inr subs \<longrightarrow>
            set subs \<subseteq> set (alert_subscriptions db) \<and>
            (\<forall>sub \<in> set subs. sub_is_active sub = Some 1)) \<and>
         severity_level ''Low'' < severity_level ''Medium'' \<and>
         severity_level ''Medium'' < severity_level ''High'' \<and>
         severity_level ''High'' < severity_level ''Critical''"
proof -
  have 1: "get_subscriptions_near_location pow db lat lon sev =
           Inr (filter (\<lambda>sub. sub_is_active sub = Some 1 \<and> within_radius pow sub lat lon \<and>
                          severity_level sev \<ge> sub_severity_level sub)
                  (alert_subscriptions db))"
    using assms by (rule matcher_returns)
  have 2: "\<forall>sub. within_radius pow sub lat lon \<longleftrightarrow>
            (\<exists>radius. sub_radius_km sub = Some radius \<and>
               fmul (pow (fadd (pow \<bar>fsub (sub_latitude sub) lat\<bar> 2)
                               (pow \<bar>fsub (sub_longitude sub) lon\<bar> 2)) (1 / 2)) 111 \<le> radius)"
    by (simp add: within_radius_def approx_dist_km_def Let_def split: option.splits)
  have 3: "\<forall>subs. get_subscriptions_near_location pow db lat lon sev = Inr subs \<longrightarrow>
            set subs \<subseteq> set (alert_subscriptions db) \<and>
            (\<forall>sub \<in> set subs. sub_is_active sub = Some 1)"
    unfolding 1 by auto
  from 1 2 3 show ?thesis
    by (simp add: severity_level_simps)
qed

theorem get_subscriptions_near_location_exact_witness:
  "\<not> fails db_high Query \<and> alert_subscriptions db_high = [sub_high] \<and>
   sub_is_active sub_high = Some 1 \<and> sub_radius_km sub_high = Some 5 \<and>
   get_subscriptions_near_location pow_rounded db_high 0 0 ''Critical'' = Inr [sub_high] \<and>
   get_subscriptions_near_location pow_rounded db_boundary 0 0 ''Low'' = Inr [sub_boundary]"
proof -
  have h: "\<not> fails db_high Query" "\<not> fails db_boundary Query"
    "\<forall>sub \<in> set (alert_subscriptions db_high).
       sub_is_active sub = Some 1 \<longrightarrow> sub_radius_km sub \<noteq> None"
    "\<forall>sub \<in> set (alert_subscriptions db_boundary).
       sub_is_active sub = Some 1 \<longrightarrow> sub_radius_km sub \<noteq> None"
    by (simp_all add: store_rows sub_high_fields sub_boundary_fields)
  have a: "within_radius pow_rounded sub_high 0 0" "sub_severity_level sub_high = 0"
    by (simp_all add: within_radius_def approx_dist_km_origin sub_severity_level_def
          sub_high_fields severity_level_other)
  have b: "within_radius pow_rounded sub_boundary 0 0" "sub_severity_level sub_boundary = 0"
    by (simp_all add: within_radius_def sub_boundary_distance sub_severity_level_def
          sub_boundary_fields severity_level_simps)
  from get_subscriptions_near_location_exact
         [OF h(1) h(3), of pow_rounded 0 0 "''Critical''", THEN conjunct1]
    get_subscriptions_near_location_exact
         [OF h(2) h(4), of pow_rounded 0 0 "''Low''", THEN conjunct1]
  show ?thesis
    using h a b by (simp add: store_rows sub_high_fields sub_boundary_fields)
qed

text \<open>
  The claim as written fails at the boundary row: its computed distance is the
  double 16.65 and the matcher returns it, while its exact distance
  \<open>sqrt(\<Delta>lat\<^sup>2 + \<Delta>lon\<^sup>2) * 111\<close> is larger than its radius. It also fails where an active
  row has no radius: the matcher raises and returns no list.
\<close>

theorem matcher_counterexample:
  "get_subscriptions_near_location pow_rounded db_boundary 0 0 ''Low'' = Inr [sub_boundary] \<and>
   sub_radius_km sub_boundary = Some d_16_65 \<and>
   \<not> sqrt ((sub_latitude sub_boundary - 0)\<^sup>2 + (sub_longitude sub_boundary - 0)\<^sup>2) * 111 \<le> d_16_65 \<and>
   get_subscriptions_near_location pow_rounded db_null_radius 0 0 ''Critical'' = Inl TypeError"
proof -
  have 1: "get_subscriptions_near_location pow_rounded db_boundary 0 0 ''Low'' = Inr [sub_boundary]"
    by (simp add: get_subscriptions_near_location_def store_rows sub_boundary_fields
          sub_boundary_distance sub_severity_level_def severity_level_simps Let_def)
  have 2: "sub_radius_km sub_boundary = Some d_16_65"
    by (simp add: sub_boundary_fields)
  have 3: "\<not> sqrt ((sub_latitude sub_boundary - 0)\<^sup>2 + (sub_longitude sub_boundary - 0)\<^sup>2) * 111
             \<le> d_16_65"
    by (simp add: sub_boundary_fields d_0_15_def d_16_65_def)
  have 4: "get_subscriptions_near_location pow_rounded db_null_radius 0 0 ''Critical'' = Inl TypeError"
    by (simp add: get_subscriptions_near_location_def store_rows sub_high_fields Let_def)
  from 1 2 3 4 show ?thesis by simp
qed




section \<open>Alert dispatch\<close>

lemma send_sms_calls:
  "snd (send_sms svc prov p msg calls) =
     calls @ (if twilio_configured svc then [TwilioPost (twilio_phone svc) p msg] else [])"
  by (simp add: send_sms_def Let_def split: response.splits)

lemma send_email_calls:
  "snd (send_email svc prov e subj body html calls) =
     calls @ (if smtp_configured svc
              then [SmtpSend (smtp_email svc) e subj body (if truthy html then html else None)]
              else [])"
  by (simp add: send_email_def Let_def split: response.splits)

lemma sms_loop_counts:
  "sms_loop svc prov msg phones (res, calls) = (res', calls') \<Longrightarrow>
     sms_sent res' + sms_failed res' = sms_sent res + sms_failed res + length phones \<and>
     emails_sent res' = emails_sent res \<and> emails_failed res' = emails_failed res \<and>
     calls' = calls @ (if twilio_configured svc
                       then map (\<lambda>p. TwilioPost (twilio_phone svc) p msg) phones else [])"
proof (induction phones arbitrary: res calls)
  case Nil
  then show ?case by simp
next
  case (Cons p phones)
  obtain ok c1 where s: "send_sms svc prov p msg calls = (ok, c1)"
    by (cases "send_sms svc prov p msg calls")
  have c1: "c1 = calls @ (if twilio_configured svc then [TwilioPost (twilio_phone svc) p msg] else [])"
    using send_sms_calls [of svc prov p msg calls] s by simp
  from Cons.prems s
  have "sms_loop svc prov msg phones
          (if ok then res\<lparr>sms_sent := sms_sent res + 1\<rparr>
           else res\<lparr>sms_failed := sms_failed res + 1\<rparr>, c1) = (res', calls')"
    by simp
  from Cons.IH [OF this] c1 show ?case
    by (cases ok) simp_all
qed

lemma email_loop_counts:
  "email_loop svc prov texts es (res, calls) = (res', calls') \<Longrightarrow>
     emails_sent res' + emails_failed res' = emails_sent res + emails_failed res + length es \<and>
     sms_sent res' = sms_sent res \<and> sms_failed res' = sms_failed res \<and>
     calls' = calls @ (if smtp_configured svc
                       then map (\<lambda>e. SmtpSend (smtp_email svc) e (email_subject texts) (email_body texts)
                                        (if email_html texts = [] then None else Some (email_html texts))) es
                       else [])"
proof (induction es arbitrary: res calls)
  case Nil
  then show ?case by simp
next
  case (Cons e es)
  obtain ok c1 where s: "send_email svc prov e (email_subject texts) (email_body texts)
                           (Some (email_html texts)) calls = (ok, c1)"
    by (cases "send_email svc prov e (email_subject texts) (email_body texts)
                 (Some (email_html texts)) calls")
  have c1: "c1 = calls @ (if smtp_configured svc
                          then [SmtpSend (smtp_email svc) e (email_subject texts) (email_body texts)
                                  (if email_html texts = [] then None else Some (email_html texts))]
                          else [])"
    using send_email_calls [of svc prov e "email_subject texts" "email_body texts"
            "Some (email_html texts)" calls] s
    by (simp add: truthy_def)
  from Cons.prems s
  have "email_loop svc prov texts es
          (if ok then res\<lparr>emails_sent := emails_sent res + 1\<rparr>
           else res\<lparr>emails_failed := emails_failed res + 1\<rparr>, c1) = (res', calls')"
    by simp
  from Cons.IH [OF this] c1 show ?case
    by (cases ok) simp_all
qed

text \<open>Providers whose answer to a call does not depend on the calls made before.\<close>

lemma sms_loop_each:
  assumes "\<forall>h c. twilio prov h c = twilio prov [] c"
  shows "sms_loop svc prov msg phones (res, calls) = (res', calls') \<Longrightarrow>
     sms_sent res' = sms_sent res + length (filter (\<lambda>p. fst (send_sms svc prov p msg [])) phones) \<and>
     sms_failed res' = sms_failed res + length (filter (\<lambda>p. \<not> fst (send_sms svc prov p msg [])) phones)"
proof (induction phones arbitrary: res calls)
  case Nil
  then show ?case by simp
next
  case (Cons p phones)
  have "twilio prov calls (TwilioPost (twilio_phone svc) p msg) =
          twilio prov [] (TwilioPost (twilio_phone svc) p msg)"
    using assms by blast
  then have same: "fst (send_sms svc prov p msg calls) = fst (send_sms svc prov p msg [])"
    by (simp add: send_sms_def Let_def split: response.splits)
  obtain ok c1 where s: "send_sms svc prov p msg calls = (ok, c1)"
    by (cases "send_sms svc prov p msg calls")
  from Cons.prems s
  have "sms_loop svc prov msg phones
          (if ok then res\<lparr>sms_sent := sms_sent res + 1\<rparr>
           else res\<lparr>sms_failed := sms_failed res + 1\<rparr>, c1) = (res', calls')"
    by simp
  from Cons.IH [OF this] same s show ?case
    by (cases ok) simp_all
qed

lemma email_loop_each:
  assumes "\<forall>h c. smtp prov h c = smtp prov [] c"
  shows "email_loop svc prov texts es (res, calls) = (res', calls') \<Longrightarrow>
     emails_sent res' = emails_sent res
       + length (filter (\<lambda>e. fst (send_email svc prov e (email_subject texts) (email_body texts)
                                     (Some (email_html texts)) [])) es) \<and>
     emails_failed res' = emails_failed res
       + length (filter (\<lambda>e. \<not> fst (send_email svc prov e (email_subject texts) (email_body texts)
                                       (Some (email_html texts)) [])) es)"
proof (induction es arbitrary: res calls)
  case Nil
  then show ?case by simp
next
  case (Cons e es)
  let ?c = "SmtpSend (smtp_email svc) e (email_subject texts) (email_body texts)
              (if truthy (Some (email_html texts)) then Some (email_html texts) else None)"
  have "smtp prov calls ?c = smtp prov [] ?c"
    using assms by blast
  then have same: "fst (send_email svc prov e (email_subject texts) (email_body texts)
                          (Some (email_html texts)) calls)
                 = fst (send_email svc prov e (email_subject texts) (email_body texts)
                          (Some (email_html texts)) [])"
    by (simp add: send_email_def Let_def split: response.splits)
  obtain ok c1 where s: "send_email svc prov e (email_subject texts) (email_body texts)
                           (Some (email_html texts)) calls = (ok, c1)"
    by (cases "send_email svc prov e (email_subject texts) (email_body texts)
                 (Some (email_html texts)) calls")
  from Cons.prems s
  have "email_loop svc prov texts es
          (if ok then res\<lparr>emails_sent := emails_sent res + 1\<rparr>
           else res\<lparr>emails_failed := emails_failed res + 1\<rparr>, c1) = (res', calls')"
    by simp
  from Cons.IH [OF this] same s show ?case
    by (cases ok) simp_all
qed

lemma send_flood_alert_split:
  assumes "send_flood_alert svc prov render n l s la lo phone_numbers emails calls = (res, calls')"
  obtains r1 c1 where
    "sms_loop svc prov (sms_message (render n l s la lo)) (given phone_numbers)
       (\<lparr> sms_sent = 0, sms_failed = 0, emails_sent = 0, emails_failed = 0 \<rparr>, calls) = (r1, c1)"
    "email_loop svc prov (render n l s la lo) (given emails) (r1, c1) = (res, calls')"
proof -
  obtain r1 c1 where a: "sms_loop svc prov (sms_message (render n l s la lo)) (given phone_numbers)
       (\<lparr> sms_sent = 0, sms_failed = 0, emails_sent = 0, emails_failed = 0 \<rparr>, calls) = (r1, c1)"
    by (cases "sms_loop svc prov (sms_message (render n l s la lo)) (given phone_numbers)
       (\<lparr> sms_sent = 0, sms_failed = 0, emails_sent = 0, emails_failed = 0 \<rparr>, calls)")
  have "email_loop svc prov (render n l s la lo) (given emails) (r1, c1) = (res, calls')"
    using assms a
    by (cases "given phone_numbers = []"; cases "given emails = []")
       (simp_all add: send_flood_alert_def Let_def)
  with a show ?thesis using that by blast
qed

text \<open>
  Claim C4. A dispatch counts every recipient once, as sent or as failed, in the
  channel it was tried on: the two SMS counters add up to the number of phone
  numbers and the two email counters to the number of emails. Whatever the
  providers answer, raising included, each recipient of a configured channel is
  tried once and in order, first the phone numbers, then the emails; with providers
  whose answers do not depend on earlier calls, a channel's sent counter is the
  number of its recipients whose own send succeeds. A dispatch over no recipients
  returns zero counters and makes no provider call. The model returns a value for
  every provider behaviour: no failure leaves the dispatch as an exception.
\<close>

theorem send_flood_alert_accounting:
  assumes "send_flood_alert svc prov render n l s la lo phone_numbers emails calls = (res, calls')"
  shows "sms_sent res + sms_failed res = length (given phone_numbers) \<and>
         emails_sent res + emails_failed res = length (given emails) \<and>
         calls' = calls @ twilio_calls svc (render n l s la lo) (given phone_numbers)
                        @ smtp_calls svc (render n l s la lo) (given emails) \<and>
         ((\<forall>h c. twilio prov h c = twilio prov [] c) \<longrightarrow>
            sms_sent res = length (filter (\<lambda>p. fst (send_sms svc prov p
                                     (sms_message (render n l s la lo)) [])) (given phone_numbers))) \<and>
         ((\<forall>h c. smtp prov h c = smtp prov [] c) \<longrightarrow>
            emails_sent res = length (filter (\<lambda>e. fst (send_email svc prov e
                                     (email_subject (render n l s la lo)) (email_body (render n l s la lo))
                                     (Some (email_html (render n l s la lo))) [])) (given emails))) \<and>
         (given phone_numbers = [] \<and> given emails = [] \<longrightarrow>
            res = \<lparr> sms_sent = 0, sms_failed = 0, emails_sent = 0, emails_failed = 0 \<rparr> \<and> calls' = calls)"
proof -
  from assms obtain r1 c1 where
    a: "sms_loop svc prov (sms_message (render n l s la lo)) (given phone_numbers)
       (\<lparr> sms_sent = 0, sms_failed = 0, emails_sent = 0, emails_failed = 0 \<rparr>, calls) = (r1, c1)"
    and b: "email_loop svc prov (render n l s la lo) (given emails) (r1, c1) = (res, calls')"
    by (rule send_flood_alert_split)
  note A = sms_loop_counts [OF a] and B = email_loop_counts [OF b]
  have 1: "sms_sent res + sms_failed res = length (given phone_numbers)"
    using A B by simp
  have 2: "emails_sent res + emails_failed res = length (given emails)"
    using A B by simp
  have 3: "calls' = calls @ twilio_calls svc (render n l s la lo) (given phone_numbers)
                        @ smtp_calls svc (render n l s la lo) (given emails)"
    using A B by (simp add: twilio_calls_def smtp_calls_def)
  have 4: "sms_sent res = length (filter (\<lambda>p. fst (send_sms svc prov p
                                     (sms_message (render n l s la lo)) [])) (given phone_numbers))"
    if "\<forall>h c. twilio prov h c = twilio prov [] c"
    using sms_loop_each [OF that a] B by simp
  have 5: "emails_sent res = length (filter (\<lambda>e. fst (send_email svc prov e
                                     (email_subject (render n l s la lo)) (email_body (render n l s la lo))
                                     (Some (email_html (render n l s la lo))) [])) (given emails))"
    if "\<forall>h c. smtp prov h c = smtp prov [] c"
    using email_loop_each [OF that b] A by simp
  have 6: "res = \<lparr> sms_sent = 0, sms_failed = 0, emails_sent = 0, emails_failed = 0 \<rparr> \<and> calls' = calls"
    if "given phone_numbers = [] \<and> given emails = []"
    using a b that by simp
  from 1 2 3 4 5 6 show ?thesis by blast
qed

lemma alert_example:
  "send_flood_alert svc_ok prov_sms_down render0 ''Quay'' ''Critical'' 100 0 0
     (Some [''+100'']) (Some [''a@b.c'']) [] =
   (\<lparr> sms_sent = 0, sms_failed = 1, emails_sent = 1, emails_failed = 0 \<rparr>,
    [TwilioPost (Some ''+199'') ''+100'' ''sms'',
     SmtpSend (Some ''alerts@x.y'') ''a@b.c'' ''subject'' ''body'' (Some ''html'')])"
  by (simp add: send_flood_alert_def given_def send_sms_def send_email_def svc_ok_def
        prov_sms_down_def render0_def twilio_configured_def smtp_configured_def truthy_def
        Let_def)

lemma alert_nobody:
  "send_flood_alert svc_ok prov_sms_down render0 ''Quay'' ''Critical'' 100 0 0 None (Some []) [] =
   (\<lparr> sms_sent = 0, sms_failed = 0, emails_sent = 0, emails_failed = 0 \<rparr>, [])"
  by (simp add: send_flood_alert_def given_def Let_def)

theorem send_flood_alert_accounting_witness:
  "send_flood_alert svc_ok prov_sms_down render0 ''Quay'' ''Critical'' 100 0 0
     (Some [''+100'']) (Some [''a@b.c'']) [] =
   (\<lparr> sms_sent = 0, sms_failed = 1, emails_sent = 1, emails_failed = 0 \<rparr>,
    [TwilioPost (Some ''+199'') ''+100'' ''sms'',
     SmtpSend (Some ''alerts@x.y'') ''a@b.c'' ''subject'' ''body'' (Some ''html'')]) \<and>
   (0::nat) + 1 = length (given (Some [''+100''])) \<and>
   (1::nat) + 0 = length (given (Some [''a@b.c''])) \<and>
   (\<forall>h c. twilio prov_sms_down h c = twilio prov_sms_down [] c) \<and>
   (\<forall>h c. smtp prov_sms_down h c = smtp prov_sms_down [] c) \<and>
   length (filter (\<lambda>p. fst (send_sms svc_ok prov_sms_down p ''sms'' [])) [''+100'']) = 0 \<and>
   length (filter (\<lambda>e. fst (send_email svc_ok prov_sms_down e ''subject'' ''body''
                                (Some ''html'') [])) [''a@b.c'']) = 1 \<and>
   given (None :: string list option) = [] \<and> given (Some ([] :: string list)) = [] \<and>
   send_flood_alert svc_ok prov_sms_down render0 ''Quay'' ''Critical'' 100 0 0 None (Some []) [] =
   (\<lparr> sms_sent = 0, sms_failed = 0, emails_sent = 0, emails_failed = 0 \<rparr>, [])"
proof -
  have h: "\<forall>h c. twilio prov_sms_down h c = twilio prov_sms_down [] c"
    "\<forall>h c. smtp prov_sms_down h c = smtp prov_sms_down [] c"
    by (simp_all add: prov_sms_down_def)
  have g: "given (Some [''+100'']) = [''+100'']" "given (Some [''a@b.c'']) = [''a@b.c'']"
    "given (None :: string list option) = []" "given (Some ([] :: string list)) = []"
    by (simp_all add: given_def)
  have r: "render0 ''Quay'' ''Critical'' 100 0 0 =
             \<lparr> sms_message = ''sms'', email_subject = ''subject'',
               email_body = ''body'', email_html = ''html'' \<rparr>"
    by (simp add: render0_def)
  from send_flood_alert_accounting [OF alert_example] send_flood_alert_accounting [OF alert_nobody]
    alert_example alert_nobody h g r
  show ?thesis by simp
qed

section \<open>The pipeline\<close>


text \<open>
  \<open>calculate_flood_risk\<close> returns when both readings are numbers, and raises
  otherwise.
\<close>

lemma calculate_flood_risk_Inr:
  assumes "calculate_flood_risk env lat lon ro eo = Inr rd"
  shows "(case ro of Some v \<Rightarrow> Number v | None \<Rightarrow> get_rainfall_data env lat lon)
           = Number (rainfall_mm rd)"
    and "(case eo of Some v \<Rightarrow> Number v | None \<Rightarrow> get_elevation_data env lat lon)
           = Number (elevation_m rd)"
    and "risk_score rd = fst (calculate_risk_score (rainfall_mm rd) (elevation_m rd))"
    and "severity rd = snd (calculate_risk_score (rainfall_mm rd) (elevation_m rd))"
  using assms
  by (auto simp add: calculate_flood_risk_def Let_def case_prod_beta split: jvalue.splits)

lemma calculate_flood_risk_Inl:
  assumes "calculate_flood_risk env lat lon ro eo = Inl e"
  shows "e = TypeError"
    and "(case ro of Some v \<Rightarrow> Number v | None \<Rightarrow> get_rainfall_data env lat lon) = NotNumber \<or>
         (case eo of Some v \<Rightarrow> Number v | None \<Rightarrow> get_elevation_data env lat lon) = NotNumber"
  using assms
  by (auto simp add: calculate_flood_risk_def Let_def case_prod_beta split: jvalue.splits)











text \<open>The handler on the examples.\<close>

lemma risk_examples:
  "calculate_flood_risk env lat lon (Some 60) (Some 0) =
     Inr \<lparr> rainfall_mm = 60, elevation_m = 0, risk_score = 100, severity = ''Critical'',
       factors = \<lparr> rainfall_contribution = ''High'', elevation_contribution = ''High risk'',
                   explanation = ''Risk is elevated due to heavy rainfall and low elevation.'' \<rparr> \<rparr>"
  "calculate_flood_risk env lat lon (Some 0) (Some 250) =
     Inr \<lparr> rainfall_mm = 0, elevation_m = 250, risk_score = 15, severity = ''Low'',
       factors = \<lparr> rainfall_contribution = ''Low'', elevation_contribution = ''Low risk'',
                   explanation = ''Risk is low due to light rainfall and high elevation.'' \<rparr> \<rparr>"
  by (simp_all add: calculate_flood_risk_def calculate_risk_score_def rainfall_score_def
        elevation_score_def severity_of_score_def Let_def)





section \<open>Environmental data resolution\<close>



lemma get_forecast_rainfall_nonneg: "0 \<le> get_forecast_rainfall env lat lon"
  by (simp add: get_forecast_rainfall_def fdiv_def rnd_nonneg
        split: response.splits option.splits)

lemma mock_elevation_nonneg: "0 \<le> mock_elevation env lat lon"
  by (simp add: mock_elevation_def Let_def)

lemma env_with_simps:
  "weather (env_with w f) lat lon = w" "forecast (env_with w f) lat lon = f"
  "hash (env_with w f) = hash env_offline" "float_str (env_with w f) = float_str env_offline"
  by (simp_all add: env_with_def env_offline_def)

lemma small_doubles:
  "rnd 2 = 2" "rnd 8 = 8" "rnd 10 = 10" "rnd 19 = 19" "rnd 21 = 21" "rnd 70 = 70"
  by (subst rnd_binade [where e = 1], simp_all add: round_half_even_def power_int_minus,
      subst rnd_binade [where e = 3], simp_all add: round_half_even_def power_int_minus,
      subst rnd_binade [where e = 3], simp_all add: round_half_even_def power_int_minus,
      subst rnd_binade [where e = 4], simp_all add: round_half_even_def power_int_minus,
      subst rnd_binade [where e = 4], simp_all add: round_half_even_def power_int_minus,
      subst rnd_binade [where e = 6], simp_all add: round_half_even_def power_int_minus)





text \<open>
  Claim C6, as amended. Under one hash of strings, that is within one interpreter
  process, and Python's formatting of floats, the mock elevation is a function of
  the two coordinates as floats, the sign of a zero included: it is
  \<open>max(0, |latitude| * 10 + offset)\<close>, the product and the sum rounded to doubles,
  where the offset is the hash of the formatted coordinates modulo 100, less 50, and
  lies between -50 and 50. It is never negative, and it depends on nothing else:
  two environments with the same hash and the same formatting give the same mock
  elevation.
\<close>

theorem mock_elevation_formula:
  "- 50 \<le> hash env (float_str env lat @ '','' @ float_str env lon) mod 100 - 50 \<and>
   hash env (float_str env lat @ '','' @ float_str env lon) mod 100 - 50 \<le> 50 \<and>
   mock_elevation env lat lon =
     max 0 (fadd (fmul \<bar>fval lat\<bar> 10)
              (real_of_int (hash env (float_str env lat @ '','' @ float_str env lon) mod 100 - 50))) \<and>
   0 \<le> mock_elevation env lat lon \<and>
   (hash env' = hash env \<and> float_str env' = float_str env \<longrightarrow>
      mock_elevation env' lat lon = mock_elevation env lat lon)"
proof -
  have "0 \<le> hash env (float_str env lat @ '','' @ float_str env lon) mod 100"
    and "hash env (float_str env lat @ '','' @ float_str env lon) mod 100 < 100"
    by simp_all
  then show ?thesis
    by (simp add: mock_elevation_def Let_def)
qed

lemma mock_examples:
  "mock_elevation env_offline (Float 0) (Float 0) = 21"
  "mock_elevation env_offline NegZero (Float 0) = 19"
  "mock_elevation env_reseeded (Float 0) (Float 0) = 10"
  "mock_elevation env_offline (Float 7) (Float 0) = 70"
  "mock_elevation (env_with w f) (Float 7) (Float 0) = 70"
  by (simp_all add: mock_elevation_def env_offline_def env_reseeded_def env_with_def
        hash_sample_def hash_other_def fmul_def fadd_def rnd_zero small_doubles Let_def)

lemma mock_rounded: "mock_elevation env_offline (Float d_40_7128) (Float 0) = d_407_128"
proof -
  have n: "d_40_7128 \<noteq> 0" "d_40_7128 \<noteq> 7" "\<bar>d_40_7128\<bar> = d_40_7128" "0 \<le> d_407_128"
    by (simp_all add: d_40_7128_def d_407_128_def)
  have 1: "fmul d_40_7128 10 = d_407_128"
    unfolding fmul_def d_40_7128_def d_407_128_def
    by (subst rnd_binade [where e = 8])
       (simp_all add: round_half_even_def Let_def power_int_minus)
  have 2: "fadd d_407_128 0 = d_407_128"
    unfolding fadd_def d_407_128_def
    by (subst rnd_binade [where e = 8])
       (simp_all add: round_half_even_def Let_def power_int_minus)
  show ?thesis
    using n by (simp add: mock_elevation_def env_offline_def hash_sample_def Let_def 1 2)
qed

theorem mock_elevation_formula_witness:
  "hash (env_with (Returned None) Raised) = hash env_offline \<and>
   float_str (env_with (Returned None) Raised) = float_str env_offline \<and>
   mock_elevation (env_with (Returned None) Raised) (Float 7) (Float 0) = 70 \<and>
   mock_elevation env_offline (Float 7) (Float 0) = 70"
  using mock_elevation_formula
          [of env_offline "Float 7" "Float 0" "env_with (Returned None) Raised",
           THEN conjunct2, THEN conjunct2, THEN conjunct2, THEN conjunct2]
  by (simp add: env_with_simps mock_examples)

text \<open>
  The claim as written fails three times. Python salts the hash of a string per
  process, and under another salt the same coordinates get another mock elevation.
  Within one process the coordinates \<open>(0.0, 0.0)\<close> and \<open>(-0.0, 0.0)\<close> are equal and
  are formatted differently, so they get different offsets. And at the latitude
  40.7128 the product with 10 is rounded: the result is 407.12800000000004, not
  the latitude times 10 plus the offset 0.
\<close>

theorem mock_elevation_counterexample:
  "float_str env_reseeded = float_str env_offline \<and>
   mock_elevation env_offline (Float 0) (Float 0) = 21 \<and>
   mock_elevation env_reseeded (Float 0) (Float 0) = 10 \<and>
   fval NegZero = fval (Float 0) \<and>
   mock_elevation env_offline NegZero (Float 0) = 19 \<and>
   hash env_offline (float_str env_offline (Float d_40_7128) @ '','' @
                     float_str env_offline (Float 0)) mod 100 - 50 = 0 \<and>
   mock_elevation env_offline (Float d_40_7128) (Float 0) = d_407_128 \<and>
   d_407_128 \<noteq> max 0 (\<bar>fval (Float d_40_7128)\<bar> * 10 + 0)"
proof -
  have 1: "d_407_128 \<noteq> max 0 (\<bar>fval (Float d_40_7128)\<bar> * 10 + 0)"
    by (simp add: d_40_7128_def d_407_128_def)
  have n: "d_40_7128 \<noteq> 0" "d_40_7128 \<noteq> 7"
    by (simp_all add: d_40_7128_def)
  have 2: "float_str env_reseeded = float_str env_offline"
    by (simp add: env_reseeded_def)
  have 3: "hash env_offline (float_str env_offline (Float d_40_7128) @ '','' @
                     float_str env_offline (Float 0)) mod 100 - 50 = 0"
    using n by (simp add: env_offline_def hash_sample_def)
  have 4: "fval NegZero = fval (Float 0)"
    by simp
  from 1 2 3 4 mock_examples(1,2,3) mock_rounded show ?thesis
    by blast
qed

lemma get_rainfall_data_nonneg:
  assumes "\<forall>v. weather env lat lon = Returned (Some (Some (Number v))) \<longrightarrow> 0 \<le> v"
    and "get_rainfall_data env lat lon = Number r"
  shows "0 \<le> r"
  using assms get_forecast_rainfall_nonneg [of env lat lon]
  by (auto simp add: get_rainfall_data_def get_or_zero_def Let_def
        split: response.splits option.splits if_splits)

lemma get_elevation_data_nonneg:
  assumes "\<forall>d v. elevation_api env lat lon = Returned d \<and> results d \<noteq> []
             \<and> hd (results d) = Some (Number v) \<longrightarrow> 0 \<le> v"
    and "get_elevation_data env lat lon = Number e"
  shows "0 \<le> e"
  using assms mock_elevation_nonneg [of env lat lon]
  by (auto simp add: get_elevation_data_def split: response.splits option.splits if_splits)

text \<open>
  Claim C8, as amended. \<open>calculate_flood_risk\<close> hands a supplied override on as it
  is, unchecked, and the resolver's value otherwise; the pair it returns is the pair
  it scores. Both components are non-negative whenever each supplied override is
  non-negative and the values the providers report (the current-hour rainfall, the
  provider's elevation) are non-negative; the forecast average and the mock
  elevation are never negative. It returns such a pair unless a reading it
  resolved is not a number, in which case it raises \<open>TypeError\<close>; with both
  overrides supplied it always returns.
\<close>

theorem calculate_flood_risk_reading:
  "(\<forall>rd. calculate_flood_risk env lat lon ro eo = Inr rd \<longrightarrow>
      (\<forall>r. ro = Some r \<longrightarrow> rainfall_mm rd = r) \<and>
      (\<forall>e. eo = Some e \<longrightarrow> elevation_m rd = e) \<and>
      (ro = None \<longrightarrow> get_rainfall_data env lat lon = Number (rainfall_mm rd)) \<and>
      (eo = None \<longrightarrow> get_elevation_data env lat lon = Number (elevation_m rd)) \<and>
      (risk_score rd, severity rd) = calculate_risk_score (rainfall_mm rd) (elevation_m rd) \<and>
      ((\<forall>r. ro = Some r \<longrightarrow> 0 \<le> r) \<and> (\<forall>e. eo = Some e \<longrightarrow> 0 \<le> e) \<and>
       (\<forall>v. weather env lat lon = Returned (Some (Some (Number v))) \<longrightarrow> 0 \<le> v) \<and>
       (\<forall>d v. elevation_api env lat lon = Returned d \<and> results d \<noteq> []
           \<and> hd (results d) = Some (Number v) \<longrightarrow> 0 \<le> v)
       \<longrightarrow> 0 \<le> rainfall_mm rd \<and> 0 \<le> elevation_m rd)) \<and>
   ((\<exists>rd. calculate_flood_risk env lat lon ro eo = Inr rd) \<longleftrightarrow>
      (ro = None \<longrightarrow> get_rainfall_data env lat lon \<noteq> NotNumber) \<and>
      (eo = None \<longrightarrow> get_elevation_data env lat lon \<noteq> NotNumber)) \<and>
   (\<forall>e. calculate_flood_risk env lat lon ro eo = Inl e \<longrightarrow> e = TypeError)"
proof -
  have A: "(\<forall>r. ro = Some r \<longrightarrow> rainfall_mm rd = r) \<and>
      (\<forall>e. eo = Some e \<longrightarrow> elevation_m rd = e) \<and>
      (ro = None \<longrightarrow> get_rainfall_data env lat lon = Number (rainfall_mm rd)) \<and>
      (eo = None \<longrightarrow> get_elevation_data env lat lon = Number (elevation_m rd)) \<and>
      (risk_score rd, severity rd) = calculate_risk_score (rainfall_mm rd) (elevation_m rd) \<and>
      ((\<forall>r. ro = Some r \<longrightarrow> 0 \<le> r) \<and> (\<forall>e. eo = Some e \<longrightarrow> 0 \<le> e) \<and>
       (\<forall>v. weather env lat lon = Returned (Some (Some (Number v))) \<longrightarrow> 0 \<le> v) \<and>
       (\<forall>d v. elevation_api env lat lon = Returned d \<and> results d \<noteq> []
           \<and> hd (results d) = Some (Number v) \<longrightarrow> 0 \<le> v)
       \<longrightarrow> 0 \<le> rainfall_mm rd \<and> 0 \<le> elevation_m rd)"
    if ret: "calculate_flood_risk env lat lon ro eo = Inr rd" for rd
  proof -
    note F = calculate_flood_risk_Inr [OF ret]
    have 1: "\<forall>r. ro = Some r \<longrightarrow> rainfall_mm rd = r"
      using F(1) by auto
    have 2: "\<forall>e. eo = Some e \<longrightarrow> elevation_m rd = e"
      using F(2) by auto
    have 3: "ro = None \<longrightarrow> get_rainfall_data env lat lon = Number (rainfall_mm rd)"
      using F(1) by auto
    have 4: "eo = None \<longrightarrow> get_elevation_data env lat lon = Number (elevation_m rd)"
      using F(2) by auto
    have 5: "(risk_score rd, severity rd) =
               calculate_risk_score (rainfall_mm rd) (elevation_m rd)"
      using F(3,4) by simp
    have 6: "0 \<le> rainfall_mm rd"
      if "\<forall>r. ro = Some r \<longrightarrow> 0 \<le> r"
        and "\<forall>v. weather env lat lon = Returned (Some (Some (Number v))) \<longrightarrow> 0 \<le> v"
    proof (cases ro)
      case None
      then show ?thesis
        using get_rainfall_data_nonneg [OF that(2)] 3 by simp
    next
      case (Some r)
      then show ?thesis
        using that(1) 1 by simp
    qed
    have 7: "0 \<le> elevation_m rd"
      if "\<forall>e. eo = Some e \<longrightarrow> 0 \<le> e"
        and "\<forall>d v. elevation_api env lat lon = Returned d \<and> results d \<noteq> []
          \<and> hd (results d) = Some (Number v) \<longrightarrow> 0 \<le> v"
    proof (cases eo)
      case None
      then show ?thesis
        using get_elevation_data_nonneg [OF that(2)] 4 by simp
    next
      case (Some e)
      then show ?thesis
        using that(1) 2 by simp
    qed
    from 1 2 3 4 5 6 7 show ?thesis by blast
  qed
  have B: "(\<exists>rd. calculate_flood_risk env lat lon ro eo = Inr rd) \<longleftrightarrow>
      (ro = None \<longrightarrow> get_rainfall_data env lat lon \<noteq> NotNumber) \<and>
      (eo = None \<longrightarrow> get_elevation_data env lat lon \<noteq> NotNumber)"
    by (cases ro; cases eo;
        cases "get_rainfall_data env lat lon"; cases "get_elevation_data env lat lon")
       (simp_all add: calculate_flood_risk_def Let_def case_prod_beta)
  have C: "\<forall>e. calculate_flood_risk env lat lon ro eo = Inl e \<longrightarrow> e = TypeError"
    using calculate_flood_risk_Inl(1) by blast
  from A B C show ?thesis by blast
qed

lemma reading_examples:
  "calculate_flood_risk env_offline (Float 7) (Float 0) None None =
     Inr \<lparr> rainfall_mm = 5, elevation_m = 70, risk_score = 40, severity = ''Medium'',
       factors = \<lparr> rainfall_contribution = ''Low'', elevation_contribution = ''Medium risk'',
                   explanation = ''Risk is moderate due to light rainfall and moderate elevation.'' \<rparr> \<rparr>"
  "calculate_flood_risk env_offline (Float 0) (Float 0) (Some 0) (Some (- 5)) =
     Inr \<lparr> rainfall_mm = 0, elevation_m = - 5, risk_score = 50, severity = ''Medium'',
       factors = \<lparr> rainfall_contribution = ''Low'', elevation_contribution = ''High risk'',
                   explanation = ''Risk is moderate due to light rainfall and low elevation.'' \<rparr> \<rparr>"
proof -
  have "get_rainfall_data env_offline (Float 7) (Float 0) = Number 5"
    "get_elevation_data env_offline (Float 7) (Float 0) = Number 70"
    by (simp_all add: get_rainfall_data_def get_elevation_data_def mock_examples truthy_def,
        simp_all add: env_offline_def)
  then show "calculate_flood_risk env_offline (Float 7) (Float 0) None None =
     Inr \<lparr> rainfall_mm = 5, elevation_m = 70, risk_score = 40, severity = ''Medium'',
       factors = \<lparr> rainfall_contribution = ''Low'', elevation_contribution = ''Medium risk'',
                   explanation = ''Risk is moderate due to light rainfall and moderate elevation.'' \<rparr> \<rparr>"
    by (simp add: calculate_flood_risk_def calculate_risk_score_def rainfall_score_def
          elevation_score_def severity_of_score_def Let_def)
  show "calculate_flood_risk env_offline (Float 0) (Float 0) (Some 0) (Some (- 5)) =
     Inr \<lparr> rainfall_mm = 0, elevation_m = - 5, risk_score = 50, severity = ''Medium'',
       factors = \<lparr> rainfall_contribution = ''Low'', elevation_contribution = ''High risk'',
                   explanation = ''Risk is moderate due to light rainfall and low elevation.'' \<rparr> \<rparr>"
    by (simp add: calculate_flood_risk_def calculate_risk_score_def rainfall_score_def
          elevation_score_def severity_of_score_def Let_def)
qed

lemma reading_reported:
  "calculate_flood_risk (env_with (Returned (Some (Some (Number 3)))) Raised)
     (Float 7) (Float 0) None None =
     Inr \<lparr> rainfall_mm = 3, elevation_m = 70, risk_score = 30, severity = ''Medium'',
       factors = \<lparr> rainfall_contribution = ''Low'', elevation_contribution = ''Medium risk'',
                   explanation = ''Risk is moderate due to light rainfall and moderate elevation.'' \<rparr> \<rparr>"
proof -
  have "get_rainfall_data (env_with (Returned (Some (Some (Number 3)))) Raised)
          (Float 7) (Float 0) = Number 3"
    "get_elevation_data (env_with (Returned (Some (Some (Number 3)))) Raised)
          (Float 7) (Float 0) = Number 70"
    by (simp_all add: get_rainfall_data_def get_elevation_data_def mock_examples truthy_def
          env_with_simps get_or_zero_def, simp_all add: env_with_def env_offline_def)
  then show ?thesis
    by (simp add: calculate_flood_risk_def calculate_risk_score_def rainfall_score_def
          elevation_score_def severity_of_score_def Let_def)
qed

theorem calculate_flood_risk_reading_witness:
  "calculate_flood_risk env_offline (Float 7) (Float 0) (Some 60) (Some 0) =
     Inr \<lparr> rainfall_mm = 60, elevation_m = 0, risk_score = 100, severity = ''Critical'',
       factors = \<lparr> rainfall_contribution = ''High'', elevation_contribution = ''High risk'',
                   explanation = ''Risk is elevated due to heavy rainfall and low elevation.'' \<rparr> \<rparr> \<and>
   calculate_risk_score 60 0 = (100, ''Critical'') \<and>
   calculate_flood_risk (env_with (Returned (Some (Some (Number 3)))) Raised)
     (Float 7) (Float 0) None None =
     Inr \<lparr> rainfall_mm = 3, elevation_m = 70, risk_score = 30, severity = ''Medium'',
       factors = \<lparr> rainfall_contribution = ''Low'', elevation_contribution = ''Medium risk'',
                   explanation = ''Risk is moderate due to light rainfall and moderate elevation.'' \<rparr> \<rparr> \<and>
   weather (env_with (Returned (Some (Some (Number 3)))) Raised) (Float 7) (Float 0)
     = Returned (Some (Some (Number 3))) \<and>
   elevation_api (env_with (Returned (Some (Some (Number 3)))) Raised) (Float 7) (Float 0)
     = Raised \<and>
   get_rainfall_data (env_with (Returned (Some (Some (Number 3)))) Raised) (Float 7) (Float 0)
     = Number 3 \<and>
   get_elevation_data (env_with (Returned (Some (Some (Number 3)))) Raised) (Float 7) (Float 0)
     = Number 70 \<and>
   calculate_risk_score 3 70 = (30, ''Medium'') \<and>
   (0::real) \<le> 3 \<and> (0::real) \<le> 70"
proof -
  have w: "weather (env_with (Returned (Some (Some (Number 3)))) Raised) (Float 7) (Float 0)
             = Returned (Some (Some (Number 3)))"
    "elevation_api (env_with (Returned (Some (Some (Number 3)))) Raised) (Float 7) (Float 0)
       = Raised"
    by (simp_all add: env_with_def env_offline_def)
  from calculate_flood_risk_reading
         [of env_offline "Float 7" "Float 0" "Some 60" "Some 0", THEN conjunct1, rule_format,
          OF risk_examples(1)]
  have 1: "calculate_risk_score 60 0 = (100, ''Critical'')"
    by simp
  from calculate_flood_risk_reading
         [of "env_with (Returned (Some (Some (Number 3)))) Raised" "Float 7" "Float 0" None None,
          THEN conjunct1, rule_format, OF reading_reported]
  have 2: "get_rainfall_data (env_with (Returned (Some (Some (Number 3)))) Raised)
             (Float 7) (Float 0) = Number 3"
    "get_elevation_data (env_with (Returned (Some (Some (Number 3)))) Raised)
             (Float 7) (Float 0) = Number 70"
    "calculate_risk_score 3 70 = (30, ''Medium'')"
    by simp_all
  from w 1 2 risk_examples(1) [of env_offline "Float 7" "Float 0"] reading_reported
  show ?thesis by simp
qed

text \<open>
  The claim as written fails for a request that passes the schema: the schema
  bounds the rainfall override below by 0 and leaves the elevation override free.
\<close>

theorem calculate_flood_risk_negative_counterexample:
  "FloodEventCreate_valid event_below_sea \<and>
   calculate_flood_risk env_offline (latitude event_below_sea) (longitude event_below_sea)
     (input_rainfall_mm event_below_sea) (input_elevation_m event_below_sea) =
     Inr \<lparr> rainfall_mm = 0, elevation_m = - 5, risk_score = 50, severity = ''Medium'',
       factors = \<lparr> rainfall_contribution = ''Low'', elevation_contribution = ''High risk'',
                   explanation = ''Risk is moderate due to light rainfall and low elevation.'' \<rparr> \<rparr> \<and>
   (- 5 :: real) < 0"
  by (simp add: event_below_sea_def FloodEventCreate_valid_def reading_examples)

end
